theory Spec2Isabelle
  imports Complex_Main
begin

section \<open>Data model\<close>

text \<open>
  A landmark is the triple \<open>[id, cx, cy]\<close> that \<open>HandDetector.findPosition\<close> and
  \<open>PoseDetector.findPosition\<close> append to \<open>lmList\<close>: an id and integer pixel
  coordinates. The handedness label read from the detector's results is a string, or
  \<open>None\<close> when it is unavailable (the \<open>try/except\<close> around the lookup leaves
  \<open>handType = None\<close>).
\<close>

type_synonym landmark = "int \<times> int \<times> int"

type_synonym lm_map = "int \<rightharpoonup> int \<times> int"

datatype error = KeyError | IndexError | ZeroDivisionError | ValueError

text \<open>
  The dictionary comprehension \<open>{id: (x, y) for id, x, y in lmList}\<close>
  (\<open>{item[0]: (item[1], item[2]) for item in lmList}\<close> in main.py and VirtualMouse.py):
  entries are stored in list order, a later entry with the same id overwrites an earlier one.
\<close>

definition lm_put :: "landmark \<Rightarrow> lm_map \<Rightarrow> lm_map" where
  "lm_put item m = (case item of (i, x, y) \<Rightarrow> m(i \<mapsto> (x, y)))"

definition lm_dict :: "landmark list \<Rightarrow> lm_map" where
  "lm_dict lmList = fold lm_put lmList Map.empty"

text \<open>Subscripting a dictionary, \<open>lm[k]\<close>: a missing key raises \<open>KeyError\<close>.\<close>

definition getitem :: "lm_map \<Rightarrow> int \<Rightarrow> error + int \<times> int" where
  "getitem lm k = (case lm k of None \<Rightarrow> Inl KeyError | Some v \<Rightarrow> Inr v)"

section \<open>HandTrackingModule.py: findPosition\<close>


section \<open>Finger classification\<close>

subsection \<open>main.py: countFingers\<close>

text \<open>
  The loop \<open>for tipId in tipIds[1:]\<close> of main.py: both landmarks are subscripted without
  a membership test, and one bit is appended per finger.
\<close>

fun main_fingers_loop :: "lm_map \<Rightarrow> int list \<Rightarrow> int list \<Rightarrow> error + int list" where
  "main_fingers_loop lm [] fingers = Inr fingers"
| "main_fingers_loop lm (tipId # rest) fingers =
     (case getitem lm tipId of
        Inl e \<Rightarrow> Inl e
      | Inr tip \<Rightarrow>
          (case getitem lm (tipId - 2) of
             Inl e \<Rightarrow> Inl e
           | Inr pip \<Rightarrow>
               if snd tip < snd pip
               then main_fingers_loop lm rest (fingers @ [1])
               else main_fingers_loop lm rest (fingers @ [0])))"

definition main_countFingers :: "landmark list \<Rightarrow> string option \<Rightarrow> error + int \<times> int list" where
  "main_countFingers lmList handType =
     (if lmList = [] then Inr (0, [])
      else
        let lm = lm_dict lmList;
            tipIds = [4, 8, 12, 16, 20]
        in case getitem lm 4 of
             Inl e \<Rightarrow> Inl e
           | Inr tip \<Rightarrow>
               (case getitem lm 3 of
                  Inl e \<Rightarrow> Inl e
                | Inr ip \<Rightarrow>
                    let fingers =
                          (if handType = Some ''Right''
                           then [if fst tip < fst ip then 1 else 0]
                           else [if fst tip > fst ip then 1 else 0])
                    in (case main_fingers_loop lm (drop 1 tipIds) fingers of
                          Inl e \<Rightarrow> Inl e
                        | Inr fingers' \<Rightarrow> Inr (sum_list fingers', fingers'))))"

subsection \<open>VirtualMouse.py: countFingers\<close>

fun mouse_fingers_loop :: "lm_map \<Rightarrow> int list \<Rightarrow> int list \<Rightarrow> int list" where
  "mouse_fingers_loop lm [] fingers = fingers"
| "mouse_fingers_loop lm (tipId # rest) fingers =
     (let pipId = tipId - 2
      in case (lm tipId, lm pipId) of
           (Some tip, Some pip) \<Rightarrow>
             mouse_fingers_loop lm rest (fingers @ [if snd tip < snd pip then 1 else 0])
         | _ \<Rightarrow> mouse_fingers_loop lm rest (fingers @ [0]))"

definition VirtualMouse_countFingers :: "landmark list \<Rightarrow> string option \<Rightarrow> int \<times> int list" where
  "VirtualMouse_countFingers lmList handType =
     (if lmList = [] then (0, [])
      else
        let lm = lm_dict lmList;
            tipIds = [4, 8, 12, 16, 20];
            fingers =
              (case (lm 4, lm 3) of
                 (Some tip, Some ip) \<Rightarrow>
                   if handType = Some ''Right''
                   then [if fst tip < fst ip then 1 else 0]
                   else [if fst tip > fst ip then 1 else 0]
               | _ \<Rightarrow> [0]);
            fingers' = mouse_fingers_loop lm (drop 1 tipIds) fingers
        in (sum_list fingers', fingers'))"

subsection \<open>VirtualPainter.py: fingersUpFromLm\<close>

text \<open>
  Here the vector starts as \<open>[0, 0, 0, 0, 0]\<close> and is assigned by index;
  \<open>enumerate(tips[1:], start=1)\<close> pairs each tip id with its position in the vector.
\<close>

fun painter_fingers_loop :: "lm_map \<Rightarrow> (nat \<times> int) list \<Rightarrow> int list \<Rightarrow> int list" where
  "painter_fingers_loop lm [] fingers = fingers"
| "painter_fingers_loop lm ((i, tipId) # rest) fingers =
     (let pipId = tipId - 2
      in case (lm tipId, lm pipId) of
           (Some tip, Some pip) \<Rightarrow>
             painter_fingers_loop lm rest (fingers[i := (if snd tip < snd pip then 1 else 0)])
         | _ \<Rightarrow> painter_fingers_loop lm rest fingers)"

definition fingersUpFromLm :: "landmark list \<Rightarrow> string option \<Rightarrow> int list" where
  "fingersUpFromLm lmList handType =
     (let tips = [4, 8, 12, 16, 20];
          fingers = [0, 0, 0, 0, 0]
      in if lmList = [] then fingers
         else
           let lm_dict = lm_dict lmList;
               fingers1 =
                 (case (lm_dict 4, lm_dict 3) of
                    (Some tip, Some ip) \<Rightarrow>
                      if handType = Some ''Right''
                      then fingers[0 := (if fst tip < fst ip then 1 else 0)]
                      else fingers[0 := (if fst tip > fst ip then 1 else 0)]
                  | _ \<Rightarrow> fingers)
           in painter_fingers_loop lm_dict (zip [1 ..< 5] (drop 1 tips)) fingers1)"

text \<open>
  Closed forms of one vector entry, used to state what the three loops compute: the bit of
  a finger whose tip is \<open>tipId\<close>, and the bit of the thumb. An absent landmark gives 0.
\<close>

definition up_bit :: "lm_map \<Rightarrow> int \<Rightarrow> int" where
  "up_bit lm tipId =
     (case (lm tipId, lm (tipId - 2)) of
        (Some tip, Some pip) \<Rightarrow> if snd tip < snd pip then 1 else 0
      | _ \<Rightarrow> 0)"

definition thumb_bit :: "lm_map \<Rightarrow> string option \<Rightarrow> int" where
  "thumb_bit lm handType =
     (case (lm 4, lm 3) of
        (Some tip, Some ip) \<Rightarrow>
          if handType = Some ''Right''
          then (if fst tip < fst ip then 1 else 0)
          else (if fst tip > fst ip then 1 else 0)
      | _ \<Rightarrow> 0)"

section \<open>Virtual painter: mode resolution and stroke accumulation\<close>

type_synonym color = "int \<times> int \<times> int"

type_synonym point = "int \<times> int"

text \<open>
  The canvas \<open>imgCanvas\<close> is only ever written by \<open>cv2.line\<close>. It is modelled by the
  sequence of those calls, each with its two end points, colour and thickness; the empty
  sequence is the all-zero canvas made by \<open>np.zeros_like\<close>. A call with equal end points
  still paints a dot of the given thickness.
\<close>

type_synonym line_call = "point \<times> point \<times> color \<times> int"

record painter_state =
  xp :: int
  yp :: int
  current_color :: color
  imgCanvas :: "line_call list"

definition header_height :: int where
  "header_height = 125"

definition colors :: "color list" where
  "colors = [(255, 0, 255), (255, 0, 0), (0, 255, 0), (0, 0, 0)]"

definition brush_thickness :: int where
  "brush_thickness = 15"

definition eraser_thickness :: int where
  "eraser_thickness = 50"

datatype mode = Navigate | Draw | Idle

text \<open>
  The \<open>if / elif / else\<close> chain of \<open>run_virtual_painter\<close> on the finger vector
  (selection mode, drawing mode, anything else). The vector comes from
  \<open>fingersUpFromLm\<close> and always has five entries.
\<close>

definition resolveMode :: "int list \<Rightarrow> mode" where
  "resolveMode fingers =
     (if fingers ! 1 = 1 \<and> fingers ! 2 = 1 then Navigate
      else if fingers ! 1 = 1 \<and> fingers ! 2 = 0 then Draw
      else Idle)"

text \<open>
  One iteration of the \<open>while\<close> loop of \<open>run_virtual_painter\<close>, from the computation of
  \<open>btn_width\<close> to the end of the \<open>if lmList:\<close> block. \<open>w\<close> is the frame width
  \<open>img.shape[1]\<close>. The result carries the new state and the index of the header button
  selected in this frame, if any (the branch that assigns \<open>current_color\<close> and draws
  the "Selected" feedback).
\<close>

definition painter_frame ::
  "int \<Rightarrow> landmark list \<Rightarrow> string option \<Rightarrow> painter_state \<Rightarrow> error + painter_state \<times> int option" where
  "painter_frame w lmList handType st =
     (let num_buttons = int (length colors);
          btn_width = w div num_buttons
      in if lmList = [] then Inr (st, None)
         else
           let fingers = fingersUpFromLm lmList handType
           in if length lmList \<le> 8 then Inl IndexError
              else
                let (_, ix, iy) = lmList ! 8
                in if length lmList \<le> 12 then Inl IndexError
                   else
                     (case resolveMode fingers of
                        Navigate \<Rightarrow>
                          let st1 = st\<lparr>xp := 0, yp := 0\<rparr>
                          in if iy < header_height
                             then if btn_width = 0 then Inl ZeroDivisionError
                                  else
                                    let btn_idx = ix div btn_width
                                    in if 0 \<le> btn_idx \<and> btn_idx < num_buttons
                                       then Inr (st1\<lparr>current_color := colors ! nat btn_idx\<rparr>,
                                                 Some btn_idx)
                                       else Inr (st1, None)
                             else Inr (st1, None)
                      | Draw \<Rightarrow>
                          let (xp1, yp1) =
                                (if xp st = 0 \<and> yp st = 0 then (ix, iy) else (xp st, yp st));
                              thickness =
                                (if current_color st = (0, 0, 0) then eraser_thickness
                                 else brush_thickness)
                          in Inr (st\<lparr>xp := ix, yp := iy,
                                     imgCanvas := imgCanvas st @
                                       [((xp1, yp1), (ix, iy), current_color st, thickness)]\<rparr>,
                                  None)
                      | Idle \<Rightarrow> Inr (st\<lparr>xp := 0, yp := 0\<rparr>, None)))"

text \<open>The state before the first frame: \<open>xp, yp = 0, 0\<close>, the first colour, an empty canvas.\<close>

definition painter_init :: painter_state where
  "painter_init = \<lparr>xp = 0, yp = 0, current_color = colors ! 0, imgCanvas = []\<rparr>"

text \<open>The loop over the frames the camera delivers; an exception ends it.\<close>

fun run_virtual_painter ::
  "(int \<times> landmark list \<times> string option) list \<Rightarrow> painter_state \<Rightarrow> error + painter_state" where
  "run_virtual_painter [] st = Inr st"
| "run_virtual_painter ((w, lmList, handType) # frames) st =
     (case painter_frame w lmList handType st of
        Inl e \<Rightarrow> Inl e
      | Inr (st', _) \<Rightarrow> run_virtual_painter frames st')"

text \<open>
  Test frames: a detected hand of 21 landmarks with the index finger tip (id 8) at
  \<open>(x, y)\<close>. The index and middle fingers are raised or not according to the two flags
  (their PIP joints, ids 6 and 10, lie below or above the tips); thumb, ring and pinky are
  down.
\<close>

definition hand_at :: "bool \<Rightarrow> bool \<Rightarrow> int \<Rightarrow> int \<Rightarrow> landmark list" where
  "hand_at index_up middle_up x y =
     map (\<lambda>i. (i, x,
                if i = 6 then (if index_up then y + 40 else y - 40)
                else if i = 10 then (if middle_up then y + 40 else y - 40)
                else y))
       [0, 1, 2, 3, 4, 5, 6, 7, 8, 9, 10, 11, 12, 13, 14, 15, 16, 17, 18, 19, 20]"

text \<open>
  Notation for the statements below: the frame \<open>(lmList, handType)\<close> shows a detected
  hand that \<open>run_virtual_painter\<close> can index at 8 and 12, its finger vector resolves to
  mode \<open>m\<close>, and the index finger tip \<open>lmList[8]\<close>, the cursor, is at \<open>(ix, iy)\<close>.
\<close>

definition frame_is :: "mode \<Rightarrow> int \<Rightarrow> int \<Rightarrow> landmark list \<Rightarrow> string option \<Rightarrow> bool" where
  "frame_is m ix iy lmList handType \<longleftrightarrow>
     12 < length lmList
     \<and> resolveMode (fingersUpFromLm lmList handType) = m
     \<and> snd (lmList ! 8) = (ix, iy)"

section \<open>Pose trainer: joint angle and repetition counter\<close>

text \<open>
  Python floats are modelled by real numbers. The comparisons with 0, 180, 160 and 30 and
  the additions of 360 and 0.5 are what the claims are about; \<open>curl_count\<close> only takes
  multiples of 0.5, which binary floating point represents exactly.

  \<open>atan2\<close> is \<open>math.atan2\<close> on reals (its arguments here are differences of integer
  pixel coordinates, so no signed zero arises) and \<open>degrees\<close> is \<open>math.degrees\<close>.
\<close>

definition atan2 :: "real \<Rightarrow> real \<Rightarrow> real" where
  "atan2 y x =
     (if x > 0 then arctan (y / x)
      else if x < 0 then (if y \<ge> 0 then arctan (y / x) + pi else arctan (y / x) - pi)
      else if y > 0 then pi / 2
      else if y < 0 then - (pi / 2)
      else 0)"

definition degrees :: "real \<Rightarrow> real" where
  "degrees r = r * 180 / pi"

text \<open>The raw angle at the joint \<open>(x2, y2)\<close>, before normalisation.\<close>

definition raw_angle :: "point \<Rightarrow> point \<Rightarrow> point \<Rightarrow> real" where
  "raw_angle p1 p2 p3 =
     (case (p1, p2, p3) of
        ((x1, y1), (x2, y2), (x3, y3)) \<Rightarrow>
          degrees (atan2 (real_of_int (y3 - y2)) (real_of_int (x3 - x2))
                   - atan2 (real_of_int (y1 - y2)) (real_of_int (x1 - x2))))"

text \<open>The two normalisation statements of \<open>findAngle\<close>, in their order.\<close>

definition normalize_angle :: "real \<Rightarrow> real" where
  "normalize_angle angle =
     (let angle1 = (if angle < 0 then angle + 360 else angle)
      in if angle1 > 180 then 360 - angle1 else angle1)"

record rep_state =
  dir :: int
  curl_count :: real

text \<open>
  The counting logic of \<open>findAngle\<close>: two independent \<open>if\<close> statements, the second
  reading the \<open>dir\<close> the first may have written. Returns the new state and the stage
  label.
\<close>

definition count_step :: "real \<Rightarrow> rep_state \<Rightarrow> rep_state \<times> string" where
  "count_step angle st =
     (let (dir1, stage1) = (if angle > 160 then (0, ''Down'') else (dir st, ''Middle''))
      in if angle < 30 \<and> dir1 = 0
         then (\<lparr>dir = 1, curl_count = curl_count st + 0.5\<rparr>, ''Up'')
         else (\<lparr>dir = dir1, curl_count = curl_count st\<rparr>, stage1))"

text \<open>
  \<open>findAngle\<close> without its drawing and CSV logging: \<open>None\<close> and an unchanged state when
  no pose was found, otherwise the normalised angle and the updated counter.
\<close>

definition findAngle ::
  "landmark list \<Rightarrow> nat \<Rightarrow> nat \<Rightarrow> nat \<Rightarrow> rep_state \<Rightarrow> error + real option \<times> rep_state" where
  "findAngle lmList p1 p2 p3 st =
     (if length lmList = 0 then Inr (None, st)
      else if p1 \<ge> length lmList \<or> p2 \<ge> length lmList \<or> p3 \<ge> length lmList
      then Inl IndexError
      else
        let angle = normalize_angle
                      (raw_angle (snd (lmList ! p1)) (snd (lmList ! p2)) (snd (lmList ! p3)))
        in Inr (Some angle, fst (count_step angle st)))"

text \<open>The counter states after each sample of a sequence of angles.\<close>

fun count_trace :: "real list \<Rightarrow> rep_state \<Rightarrow> rep_state list" where
  "count_trace [] st = []"
| "count_trace (angle # angles) st =
     (let st' = fst (count_step angle st) in st' # count_trace angles st')"

section \<open>Properties of the landmark dictionary\<close>

lemma lm_put_apply: "lm_put (i, x, y) m k = (if k = i then Some (x, y) else m k)"
  by (simp add: lm_put_def)

lemma dom_lm_put: "dom (lm_put a m) = insert (fst a) (dom m)"
  by (cases a) (simp add: lm_put_def)

lemma fold_lm_put_other: "k \<notin> fst ` set l \<Longrightarrow> fold lm_put l m0 k = m0 k"
  by (induction l arbitrary: m0) (auto simp: lm_put_apply)

lemma fold_lm_put_distinct:
  "distinct (map fst l) \<Longrightarrow> (k, x, y) \<in> set l \<Longrightarrow> fold lm_put l m0 k = Some (x, y)"
proof (induction l arbitrary: m0)
  case Nil
  then show ?case by simp
next
  case (Cons a l)
  show ?case
  proof (cases "a = (k, x, y)")
    case True
    with Cons.prems have "k \<notin> fst ` set l" by auto
    then have "fold lm_put l (lm_put a m0) k = lm_put a m0 k"
      by (rule fold_lm_put_other)
    with True show ?thesis by (simp add: lm_put_apply)
  next
    case False
    with Cons.prems have "(k, x, y) \<in> set l" and "distinct (map fst l)" by auto
    with Cons.IH show ?thesis by simp
  qed
qed

lemma lm_dict_distinct:
  "distinct (map fst lmList) \<Longrightarrow> (k, x, y) \<in> set lmList \<Longrightarrow> lm_dict lmList k = Some (x, y)"
  by (simp add: lm_dict_def fold_lm_put_distinct)

lemma fold_lm_put_dom: "dom (fold lm_put l m0) = dom m0 \<union> fst ` set l"
  by (induction l arbitrary: m0) (auto simp: dom_lm_put)

lemma lm_dict_dom: "dom (lm_dict lmList) = fst ` set lmList"
  by (simp add: lm_dict_def fold_lm_put_dom)

section \<open>The three finger classifiers\<close>

lemma mouse_fingers_loop_map: "mouse_fingers_loop lm ids fs = fs @ map (up_bit lm) ids"
  by (induction ids arbitrary: fs) (auto simp: up_bit_def split: option.splits)

lemma VirtualMouse_countFingers_vec:
  "lmList \<noteq> [] \<Longrightarrow>
   snd (VirtualMouse_countFingers lmList handType) =
     [thumb_bit (lm_dict lmList) handType, up_bit (lm_dict lmList) 8, up_bit (lm_dict lmList) 12,
      up_bit (lm_dict lmList) 16, up_bit (lm_dict lmList) 20]"
  by (simp add: VirtualMouse_countFingers_def mouse_fingers_loop_map thumb_bit_def Let_def
           split: option.splits)

lemma painter_fingers_loop_step:
  "i < length fs \<Longrightarrow> fs ! i = 0 \<Longrightarrow>
   painter_fingers_loop lm ((i, tipId) # rest) fs =
     painter_fingers_loop lm rest (fs[i := up_bit lm tipId])"
proof -
  assume "i < length fs" and z: "fs ! i = 0"
  have "fs[i := 0] = fs" using list_update_id [of fs i] z by simp
  then show ?thesis
    by (auto simp: up_bit_def Let_def split: option.splits)
qed

lemma zip_tips: "zip [1 ..< 5] (drop 1 [4, 8, 12, 16, 20::int]) = [(1, 8), (2, 12), (3, 16), (4, 20)]"
  by (simp add: upt_rec)

lemma painter_fingers_loop_tips:
  "painter_fingers_loop lm [(1, 8), (2, 12), (3, 16), (4, 20)] [t, 0, 0, 0, 0] =
     [t, up_bit lm 8, up_bit lm 12, up_bit lm 16, up_bit lm 20]"
  by (simp add: painter_fingers_loop_step del: painter_fingers_loop.simps(2))

lemma fingersUpFromLm_vec:
  "lmList \<noteq> [] \<Longrightarrow>
   fingersUpFromLm lmList handType =
     [thumb_bit (lm_dict lmList) handType, up_bit (lm_dict lmList) 8, up_bit (lm_dict lmList) 12,
      up_bit (lm_dict lmList) 16, up_bit (lm_dict lmList) 20]"
proof -
  assume ne: "lmList \<noteq> []"
  let ?lm = "lm_dict lmList"
  have "fingersUpFromLm lmList handType =
          painter_fingers_loop ?lm [(1, 8), (2, 12), (3, 16), (4, 20)]
            [thumb_bit ?lm handType, 0, 0, 0, 0]"
    using ne unfolding fingersUpFromLm_def Let_def zip_tips
    by (auto simp: thumb_bit_def split: option.splits simp del: painter_fingers_loop.simps)
  then show ?thesis by (simp only: painter_fingers_loop_tips)
qed

lemma main_fingers_loop_map:
  "\<forall>t \<in> set ids. t \<in> dom lm \<and> t - 2 \<in> dom lm \<Longrightarrow>
   main_fingers_loop lm ids fs = Inr (fs @ map (up_bit lm) ids)"
  by (induction ids arbitrary: fs) (auto simp: up_bit_def getitem_def split: option.splits)


lemma VirtualMouse_countFingers_total:
  "fst (VirtualMouse_countFingers lmList handType) = sum_list (snd (VirtualMouse_countFingers lmList handType))"
  by (simp add: VirtualMouse_countFingers_def Let_def)

lemma main_countFingers_vec:
  assumes "{3, 4, 6, 8, 10, 12, 14, 16, 18, 20} \<subseteq> dom (lm_dict lmList)" and "lmList \<noteq> []"
  shows "main_countFingers lmList handType =
     Inr (sum_list [thumb_bit (lm_dict lmList) handType, up_bit (lm_dict lmList) 8, up_bit (lm_dict lmList) 12,
      up_bit (lm_dict lmList) 16, up_bit (lm_dict lmList) 20], [thumb_bit (lm_dict lmList) handType, up_bit (lm_dict lmList) 8, up_bit (lm_dict lmList) 12,
      up_bit (lm_dict lmList) 16, up_bit (lm_dict lmList) 20])"
proof -
  let ?lm = "lm_dict lmList"
  from assms(1) obtain tip ip where t: "?lm 4 = Some tip" and j: "?lm 3 = Some ip"
    by auto
  from assms(1) have "\<forall>t \<in> set [8, 12, 16, 20]. t \<in> dom ?lm \<and> t - 2 \<in> dom ?lm"
    by auto
  then have loop: "\<And>fs. main_fingers_loop ?lm [8, 12, 16, 20] fs = Inr (fs @ map (up_bit ?lm) [8, 12, 16, 20])"
    by (rule main_fingers_loop_map)
  show ?thesis
    using assms(2) t j
    by (simp add: main_countFingers_def getitem_def loop thumb_bit_def Let_def
          del: main_fingers_loop.simps)
qed

text \<open>
  Claim C10. For every landmark list that contains all of the ids 3, 4, 6, 8, 10, 12, 14,
  16, 18 and 20, and every handedness value, \<open>countFingers\<close> of main.py returns without
  error exactly what \<open>countFingers\<close> of VirtualMouse.py returns, and the vector of both is
  the five-element vector of \<open>fingersUpFromLm\<close>.
\<close>

theorem classifiers_agree:
  assumes "{3, 4, 6, 8, 10, 12, 14, 16, 18, 20} \<subseteq> fst ` set lmList"
  shows "main_countFingers lmList handType = Inr (VirtualMouse_countFingers lmList handType)
       \<and> snd (VirtualMouse_countFingers lmList handType) = fingersUpFromLm lmList handType
       \<and> length (fingersUpFromLm lmList handType) = 5"
proof -
  from assms have ne: "lmList \<noteq> []" by auto
  from assms have d: "{3, 4, 6, 8, 10, 12, 14, 16, 18, 20} \<subseteq> dom (lm_dict lmList)"
    by (simp only: lm_dict_dom)
  have m: "VirtualMouse_countFingers lmList handType =
          (sum_list (snd (VirtualMouse_countFingers lmList handType)), snd (VirtualMouse_countFingers lmList handType))"
    using VirtualMouse_countFingers_total [of lmList handType] by (metis prod.collapse)
  show ?thesis
    using main_countFingers_vec [OF d ne, of handType] m
    by (simp add: VirtualMouse_countFingers_vec [OF ne] fingersUpFromLm_vec [OF ne])
qed

theorem classifiers_agree_witness:
  "{3, 4, 6, 8, 10, 12, 14, 16, 18, 20} \<subseteq> fst ` set (hand_at True False 10 10)
   \<and> main_countFingers (hand_at True False 10 10) (Some ''Right'') =
       Inr (VirtualMouse_countFingers (hand_at True False 10 10) (Some ''Right''))
   \<and> snd (VirtualMouse_countFingers (hand_at True False 10 10) (Some ''Right'')) =
       fingersUpFromLm (hand_at True False 10 10) (Some ''Right'')
   \<and> length (fingersUpFromLm (hand_at True False 10 10) (Some ''Right'')) = 5"
proof -
  have h: "{3, 4, 6, 8, 10, 12, 14, 16, 18, 20} \<subseteq> fst ` set (hand_at True False 10 10)"
    by (simp add: hand_at_def)
  show ?thesis using h classifiers_agree [OF h, of "Some ''Right''"] by blast
qed

text \<open>
  Claim C6. For a landmark set (ids unique) that contains ids 3 and 4, entry 0 of the
  finger vector of \<open>countFingers\<close> (VirtualMouse.py) and of \<open>fingersUpFromLm\<close> compares
  the x-coordinates of the tip (id 4) and the joint (id 3): with handedness "Right" the
  thumb is up iff tip.x < joint.x, with any other or no handedness iff tip.x > joint.x.
\<close>

theorem thumb_rule:
  assumes "distinct (map fst lmList)"
    and "(4, tx, ty) \<in> set lmList" and "(3, jx, jy) \<in> set lmList"
  shows "snd (VirtualMouse_countFingers lmList handType) ! 0 =
           (if handType = Some ''Right'' then (if tx < jx then 1 else 0)
            else (if tx > jx then 1 else 0))
       \<and> fingersUpFromLm lmList handType ! 0 =
           (if handType = Some ''Right'' then (if tx < jx then 1 else 0)
            else (if tx > jx then 1 else 0))"
proof -
  from assms(2) have ne: "lmList \<noteq> []" by auto
  have t: "lm_dict lmList 4 = Some (tx, ty)" and j: "lm_dict lmList 3 = Some (jx, jy)"
    using assms by (simp_all add: lm_dict_distinct)
  show ?thesis
    by (simp add: VirtualMouse_countFingers_vec [OF ne] fingersUpFromLm_vec [OF ne] thumb_bit_def t j)
qed

theorem thumb_rule_witness:
  "distinct (map fst ([(3, 50, 60), (4, 40, 55)] :: landmark list))
   \<and> (4, 40, 55) \<in> set ([(3, 50, 60), (4, 40, 55)] :: landmark list)
   \<and> (3, 50, 60) \<in> set ([(3, 50, 60), (4, 40, 55)] :: landmark list)
   \<and> snd (VirtualMouse_countFingers ([(3, 50, 60), (4, 40, 55)] :: landmark list) (Some ''Right'')) ! 0 = 1
   \<and> fingersUpFromLm ([(3, 50, 60), (4, 40, 55)] :: landmark list) (Some ''Right'') ! 0 = 1
   \<and> snd (VirtualMouse_countFingers ([(3, 50, 60), (4, 40, 55)] :: landmark list) (Some ''Left'')) ! 0 = 0
   \<and> fingersUpFromLm ([(3, 50, 60), (4, 40, 55)] :: landmark list) (Some ''Left'') ! 0 = 0"
  using thumb_rule [of "[(3, 50, 60), (4, 40, 55)]" 40 55 50 60 "Some ''Right''"]
        thumb_rule [of "[(3, 50, 60), (4, 40, 55)]" 40 55 50 60 "Some ''Left''"]
  by simp

text \<open>
  Claim C7. For a landmark set (ids unique) that contains the tip and the PIP joint
  (id = tip id - 2) of one of the fingers 1 to 4, the entry of that finger in the vector of
  \<open>countFingers\<close> (VirtualMouse.py) and of \<open>fingersUpFromLm\<close> is 1 iff tip.y < pip.y;
  on the boundary tip.y = pip.y it is 0.
\<close>

theorem finger_rule:
  assumes "distinct (map fst lmList)"
    and "(i, tipId) \<in> {(1, 8), (2, 12), (3, 16), (4, 20)}"
    and "(tipId, tx, ty) \<in> set lmList" and "(tipId - 2, px, py) \<in> set lmList"
  shows "snd (VirtualMouse_countFingers lmList handType) ! i = (if ty < py then 1 else 0)
       \<and> fingersUpFromLm lmList handType ! i = (if ty < py then 1 else 0)
       \<and> (ty = py \<longrightarrow> snd (VirtualMouse_countFingers lmList handType) ! i = 0
                    \<and> fingersUpFromLm lmList handType ! i = 0)"
proof -
  from assms(3) have ne: "lmList \<noteq> []" by auto
  have t: "lm_dict lmList tipId = Some (tx, ty)" and p: "lm_dict lmList (tipId - 2) = Some (px, py)"
    using assms by (simp_all add: lm_dict_distinct)
  have u: "up_bit (lm_dict lmList) tipId = (if ty < py then 1 else 0)"
    by (simp add: up_bit_def t p)
  from assms(2) consider "i = 1 \<and> tipId = 8" | "i = 2 \<and> tipId = 12" | "i = 3 \<and> tipId = 16" | "i = 4 \<and> tipId = 20"
    by auto
  then show ?thesis
    using u by cases (simp_all add: VirtualMouse_countFingers_vec [OF ne] fingersUpFromLm_vec [OF ne])
qed

theorem finger_rule_witness:
  "distinct (map fst ([(8, 10, 10), (6, 10, 20), (12, 30, 15), (10, 30, 15)] :: landmark list))
   \<and> (1 :: nat, 8 :: int) \<in> {(1, 8), (2, 12), (3, 16), (4, 20)}
   \<and> (8, 10, 10) \<in> set ([(8, 10, 10), (6, 10, 20), (12, 30, 15), (10, 30, 15)] :: landmark list)
   \<and> (6, 10, 20) \<in> set ([(8, 10, 10), (6, 10, 20), (12, 30, 15), (10, 30, 15)] :: landmark list)
   \<and> snd (VirtualMouse_countFingers ([(8, 10, 10), (6, 10, 20), (12, 30, 15), (10, 30, 15)] :: landmark list) None) ! 1 = 1
   \<and> fingersUpFromLm ([(8, 10, 10), (6, 10, 20), (12, 30, 15), (10, 30, 15)] :: landmark list) None ! 1 = 1
   \<and> snd (VirtualMouse_countFingers ([(8, 10, 10), (6, 10, 20), (12, 30, 15), (10, 30, 15)] :: landmark list) None) ! 2 = 0
   \<and> fingersUpFromLm ([(8, 10, 10), (6, 10, 20), (12, 30, 15), (10, 30, 15)] :: landmark list) None ! 2 = 0"
  using finger_rule [of "[(8, 10, 10), (6, 10, 20), (12, 30, 15), (10, 30, 15)]" 1 8 10 10 10 20 None]
        finger_rule [of "[(8, 10, 10), (6, 10, 20), (12, 30, 15), (10, 30, 15)]" 2 12 30 15 30 15 None]
  by simp

section \<open>The virtual painter\<close>

lemma painter_frame_no_hand: "painter_frame w [] handType st = Inr (st, None)"
  by (simp add: painter_frame_def Let_def)

lemma painter_frame_Draw:
  assumes "12 < length lmList" and "resolveMode (fingersUpFromLm lmList handType) = Draw"
    and "snd (lmList ! 8) = (ix, iy)"
  shows "painter_frame w lmList handType st =
           Inr (st\<lparr>xp := ix, yp := iy,
                   imgCanvas := imgCanvas st @
                     [(if xp st = 0 \<and> yp st = 0 then (ix, iy) else (xp st, yp st), (ix, iy),
                       current_color st,
                       if current_color st = (0, 0, 0) then eraser_thickness else brush_thickness)]\<rparr>,
                None)"
proof -
  from assms(1) have "lmList \<noteq> []" by auto
  with assms show ?thesis
    by (cases "lmList ! 8") (simp add: painter_frame_def Let_def)
qed

lemma painter_frame_Idle:
  assumes "12 < length lmList" and "resolveMode (fingersUpFromLm lmList handType) = Idle"
  shows "painter_frame w lmList handType st = Inr (st\<lparr>xp := 0, yp := 0\<rparr>, None)"
proof -
  from assms(1) have "lmList \<noteq> []" by auto
  with assms show ?thesis
    by (simp add: painter_frame_def Let_def split: prod.splits)
qed

lemma painter_frame_Navigate:
  assumes "12 < length lmList" and "resolveMode (fingersUpFromLm lmList handType) = Navigate"
    and "snd (lmList ! 8) = (ix, iy)"
  shows "painter_frame w lmList handType st =
           (if iy < header_height
            then if w div 4 = 0 then Inl ZeroDivisionError
                 else if 0 \<le> ix div (w div 4) \<and> ix div (w div 4) < 4
                      then Inr (st\<lparr>xp := 0, yp := 0,
                                   current_color := colors ! nat (ix div (w div 4))\<rparr>,
                                Some (ix div (w div 4)))
                      else Inr (st\<lparr>xp := 0, yp := 0\<rparr>, None)
            else Inr (st\<lparr>xp := 0, yp := 0\<rparr>, None))"
proof -
  from assms(1) have "lmList \<noteq> []" by auto
  with assms show ?thesis
    by (cases "lmList ! 8") (simp add: painter_frame_def Let_def colors_def)
qed

lemma hand_at_length: "length (hand_at a b x y) = 21"
  by (simp add: hand_at_def)

lemma hand_at_cursor: "hand_at a b x y ! 8 = (8, x, y)"
  by (simp add: hand_at_def)

lemma hand_at_fingers:
  "fingersUpFromLm (hand_at a b x y) h = [0, if a then 1 else 0, if b then 1 else 0, 0, 0]"
  by (simp add: fingersUpFromLm_def hand_at_def lm_dict_def lm_put_def upt_rec)

lemma hand_at_mode:
  "resolveMode (fingersUpFromLm (hand_at a b x y) h) =
     (if a then (if b then Navigate else Draw) else Idle)"
  by (simp add: hand_at_fingers resolveMode_def)


lemma frame_is_hand_at:
  "frame_is m x y (hand_at a b x y) h \<longleftrightarrow> m = (if a then (if b then Navigate else Draw) else Idle)"
  by (auto simp: frame_is_def hand_at_length hand_at_cursor hand_at_mode)

text \<open>
  Claim C5. The mode resolver takes the first matching rule: index = 1 and middle = 1 give
  Navigate whatever the thumb, ring and pinky entries are; index = 1 and middle = 0 give
  Draw; every other vector, the all-zero one included, gives Idle.
\<close>

theorem resolveMode_precedence:
  "(i = 1 \<and> m = 1 \<longrightarrow> resolveMode [t, i, m, r, p] = Navigate)
   \<and> (i = 1 \<and> m = 0 \<longrightarrow> resolveMode [t, i, m, r, p] = Draw)
   \<and> (\<not> (i = 1 \<and> m = 1) \<and> \<not> (i = 1 \<and> m = 0) \<longrightarrow> resolveMode [t, i, m, r, p] = Idle)
   \<and> resolveMode [0, 0, 0, 0, 0] = Idle"
  by (simp add: resolveMode_def)

theorem resolveMode_precedence_witness:
  "resolveMode [0, 1, 1, 0, 1] = Navigate \<and> resolveMode [1, 1, 1, 1, 0] = Navigate
   \<and> resolveMode [1, 1, 0, 1, 1] = Draw
   \<and> resolveMode [1, 0, 1, 1, 1] = Idle"
  using resolveMode_precedence [of 1 1 0 0 1] resolveMode_precedence [of 1 1 1 1 0]
        resolveMode_precedence [of 1 0 1 1 1] resolveMode_precedence [of 0 1 1 1 1]
  by simp

text \<open>
  As the spec words it, the first Draw frame would leave the canvas untouched and the two
  frames would draw one segment. On the code the first frame already calls \<open>cv2.line\<close>,
  from the cursor to itself, so the canvas holds two line calls after the two frames.
\<close>

theorem two_draw_frames_counterexample:
  "painter_frame 1280 (hand_at True False 10 10) None painter_init =
     Inr (\<lparr>xp = 10, yp = 10, current_color = (255, 0, 255),
           imgCanvas = [((10, 10), (10, 10), (255, 0, 255), 15)]\<rparr>, None)
   \<and> run_virtual_painter
        [(1280, hand_at True False 10 10, None), (1280, hand_at True False 20 20, None)]
        painter_init =
     Inr \<lparr>xp = 20, yp = 20, current_color = (255, 0, 255),
          imgCanvas = [((10, 10), (10, 10), (255, 0, 255), 15),
                       ((10, 10), (20, 20), (255, 0, 255), 15)]\<rparr>
   \<and> run_virtual_painter
        [(1280, hand_at True False 10 10, None), (1280, hand_at True False 20 20, None)]
        painter_init \<noteq>
     Inr \<lparr>xp = 20, yp = 20, current_color = (255, 0, 255),
          imgCanvas = [((10, 10), (20, 20), (255, 0, 255), 15)]\<rparr>"
  by (simp add: painter_frame_Draw hand_at_length hand_at_cursor hand_at_mode
        painter_init_def colors_def brush_thickness_def)


lemma frame_is_Draw:
  assumes "frame_is Draw ix iy lmList handType"
  shows "painter_frame w lmList handType st =
           Inr (st\<lparr>xp := ix, yp := iy,
                   imgCanvas := imgCanvas st @
                     [(if xp st = 0 \<and> yp st = 0 then (ix, iy) else (xp st, yp st), (ix, iy),
                       current_color st,
                       if current_color st = (0, 0, 0) then eraser_thickness else brush_thickness)]\<rparr>,
                None)"
  using assms unfolding frame_is_def by (intro painter_frame_Draw) simp_all

text \<open>
  Claim C1, as the code has it. Starting with \<open>xp, yp = 0, 0\<close>, the frames Draw(10,10),
  Draw(20,20) draw the zero-length segment (10,10)-(10,10) and then the segment
  (10,10)-(20,20). A Draw frame that finds the cursor state unset records the cursor
  position and draws only the zero-length segment at the cursor. No Draw frame draws a
  segment that starts at the origin (0,0) unless the cursor itself is at the origin.
\<close>

theorem draw_sequence_segments:
  "(frame_is Draw 10 10 lm1 h1 \<and> frame_is Draw 20 20 lm2 h2 \<longrightarrow>
      run_virtual_painter [(w1, lm1, h1), (w2, lm2, h2)] painter_init =
        Inr \<lparr>xp = 20, yp = 20, current_color = (255, 0, 255),
             imgCanvas = [((10, 10), (10, 10), (255, 0, 255), brush_thickness),
                          ((10, 10), (20, 20), (255, 0, 255), brush_thickness)]\<rparr>)
   \<and> (frame_is Draw ix iy lmList handType \<and> xp st = 0 \<and> yp st = 0 \<longrightarrow>
        painter_frame w lmList handType st =
          Inr (st\<lparr>xp := ix, yp := iy,
                  imgCanvas := imgCanvas st @
                    [((ix, iy), (ix, iy), current_color st,
                      if current_color st = (0, 0, 0) then eraser_thickness
                      else brush_thickness)]\<rparr>,
               None))
   \<and> (frame_is Draw ix iy lmList handType \<longrightarrow>
        (\<exists>p c t. painter_frame w lmList handType st =
                    Inr (st\<lparr>xp := ix, yp := iy,
                            imgCanvas := imgCanvas st @ [(p, (ix, iy), c, t)]\<rparr>, None)
                 \<and> (p = (0, 0) \<longrightarrow> (ix, iy) = (0, 0))))"
proof (intro conjI impI)
  assume a: "frame_is Draw 10 10 lm1 h1 \<and> frame_is Draw 20 20 lm2 h2"
  then have f1: "frame_is Draw 10 10 lm1 h1" and f2: "frame_is Draw 20 20 lm2 h2"
    by simp_all
  show "run_virtual_painter [(w1, lm1, h1), (w2, lm2, h2)] painter_init =
        Inr \<lparr>xp = 20, yp = 20, current_color = (255, 0, 255),
             imgCanvas = [((10, 10), (10, 10), (255, 0, 255), brush_thickness),
                          ((10, 10), (20, 20), (255, 0, 255), brush_thickness)]\<rparr>"
    by (simp add: frame_is_Draw [OF f1] frame_is_Draw [OF f2] painter_init_def colors_def)
next
  assume a: "frame_is Draw ix iy lmList handType \<and> xp st = 0 \<and> yp st = 0"
  then have f: "frame_is Draw ix iy lmList handType" by simp
  from a show "painter_frame w lmList handType st =
          Inr (st\<lparr>xp := ix, yp := iy,
                  imgCanvas := imgCanvas st @
                    [((ix, iy), (ix, iy), current_color st,
                      if current_color st = (0, 0, 0) then eraser_thickness
                      else brush_thickness)]\<rparr>,
               None)"
    by (simp add: frame_is_Draw [OF f])
next
  assume f: "frame_is Draw ix iy lmList handType"
  show "\<exists>p c t. painter_frame w lmList handType st =
                    Inr (st\<lparr>xp := ix, yp := iy,
                            imgCanvas := imgCanvas st @ [(p, (ix, iy), c, t)]\<rparr>, None)
                 \<and> (p = (0, 0) \<longrightarrow> (ix, iy) = (0, 0))"
    unfolding frame_is_Draw [OF f] by (intro exI conjI) (rule refl, auto)
qed

theorem draw_sequence_segments_witness:
  "frame_is Draw 10 10 (hand_at True False 10 10) None
   \<and> frame_is Draw 20 20 (hand_at True False 20 20) None
   \<and> xp painter_init = 0 \<and> yp painter_init = 0
   \<and> run_virtual_painter
        [(1280, hand_at True False 10 10, None), (1280, hand_at True False 20 20, None)]
        painter_init =
       Inr \<lparr>xp = 20, yp = 20, current_color = (255, 0, 255),
            imgCanvas = [((10, 10), (10, 10), (255, 0, 255), brush_thickness),
                         ((10, 10), (20, 20), (255, 0, 255), brush_thickness)]\<rparr>
   \<and> painter_frame 1280 (hand_at True False 10 10) None painter_init =
       Inr (painter_init\<lparr>xp := 10, yp := 10,
              imgCanvas := imgCanvas painter_init @
                [((10, 10), (10, 10), current_color painter_init,
                  if current_color painter_init = (0, 0, 0) then eraser_thickness
                  else brush_thickness)]\<rparr>, None)"
proof -
  have f1: "frame_is Draw 10 10 (hand_at True False 10 10) None"
    and f2: "frame_is Draw 20 20 (hand_at True False 20 20) None"
    by (simp_all add: frame_is_hand_at)
  have z: "xp painter_init = 0 \<and> yp painter_init = 0"
    by (simp add: painter_init_def)
  show ?thesis
    using f1 f2 z
      draw_sequence_segments [of "hand_at True False 10 10" None "hand_at True False 20 20" None
        1280 1280 10 10 "hand_at True False 10 10" None painter_init 1280]
    by blast
qed


lemma frame_is_Idle:
  assumes "frame_is Idle ix iy lmList handType"
  shows "painter_frame w lmList handType st = Inr (st\<lparr>xp := 0, yp := 0\<rparr>, None)"
  using assms unfolding frame_is_def by (intro painter_frame_Idle) simp_all

lemma frame_is_Navigate:
  assumes "frame_is Navigate ix iy lmList handType"
  shows "painter_frame w lmList handType st =
           (if iy < header_height
            then if w div 4 = 0 then Inl ZeroDivisionError
                 else if 0 \<le> ix div (w div 4) \<and> ix div (w div 4) < 4
                      then Inr (st\<lparr>xp := 0, yp := 0,
                                   current_color := colors ! nat (ix div (w div 4))\<rparr>,
                                Some (ix div (w div 4)))
                      else Inr (st\<lparr>xp := 0, yp := 0\<rparr>, None)
            else Inr (st\<lparr>xp := 0, yp := 0\<rparr>, None))"
  using assms unfolding frame_is_def by (intro painter_frame_Navigate) simp_all

lemma div4_pos: "4 \<le> (w::int) \<Longrightarrow> w div 4 \<noteq> 0"
  by presburger

text \<open>
  Claim C3, as the code has it. A frame with a detected hand whose mode is not Draw (frame
  at least four pixels wide, so that the button width is not zero) resets \<open>xp, yp\<close> to
  unset and leaves the canvas unchanged; the next Draw frame then draws no line from an
  earlier point: its only line call is the zero-length segment at its own cursor.
\<close>

theorem non_draw_frame_lifts_pen:
  assumes "frame_is m ix iy lmList handType" and "m \<noteq> Draw" and "4 \<le> w"
  shows "\<exists>st' ev. painter_frame w lmList handType st = Inr (st', ev)
           \<and> xp st' = 0 \<and> yp st' = 0 \<and> imgCanvas st' = imgCanvas st
           \<and> (\<forall>w2 lm2 h2 jx jy. frame_is Draw jx jy lm2 h2 \<longrightarrow>
                 painter_frame w2 lm2 h2 st' =
                   Inr (st'\<lparr>xp := jx, yp := jy,
                            imgCanvas := imgCanvas st @
                              [((jx, jy), (jx, jy), current_color st',
                                if current_color st' = (0, 0, 0) then eraser_thickness
                                else brush_thickness)]\<rparr>, None))"
proof -
  have nz: "w div 4 \<noteq> 0" using assms(3) by (rule div4_pos)
  have "\<exists>st' ev. painter_frame w lmList handType st = Inr (st', ev)
           \<and> xp st' = 0 \<and> yp st' = 0 \<and> imgCanvas st' = imgCanvas st"
  proof (cases m)
    case Navigate
    with assms(1) have "frame_is Navigate ix iy lmList handType" by simp
    then show ?thesis using nz by (simp add: frame_is_Navigate)
  next
    case Draw
    with assms(2) show ?thesis by simp
  next
    case Idle
    with assms(1) have "frame_is Idle ix iy lmList handType" by simp
    then show ?thesis by (simp add: frame_is_Idle)
  qed
  then obtain st' ev where r: "painter_frame w lmList handType st = Inr (st', ev)"
    and z: "xp st' = 0" "yp st' = 0" and c: "imgCanvas st' = imgCanvas st"
    by blast
  have "\<forall>w2 lm2 h2 jx jy. frame_is Draw jx jy lm2 h2 \<longrightarrow>
                 painter_frame w2 lm2 h2 st' =
                   Inr (st'\<lparr>xp := jx, yp := jy,
                            imgCanvas := imgCanvas st @
                              [((jx, jy), (jx, jy), current_color st',
                                if current_color st' = (0, 0, 0) then eraser_thickness
                                else brush_thickness)]\<rparr>, None)"
  proof (intro allI impI)
    fix w2 lm2 h2 jx jy
    assume f: "frame_is Draw jx jy lm2 h2"
    show "painter_frame w2 lm2 h2 st' =
                   Inr (st'\<lparr>xp := jx, yp := jy,
                            imgCanvas := imgCanvas st @
                              [((jx, jy), (jx, jy), current_color st',
                                if current_color st' = (0, 0, 0) then eraser_thickness
                                else brush_thickness)]\<rparr>, None)"
      by (simp add: frame_is_Draw [OF f] z c)
  qed
  with r z c show ?thesis by blast
qed

theorem non_draw_frame_lifts_pen_witness:
  "frame_is Idle 15 15 (hand_at False False 15 15) None \<and> Idle \<noteq> Draw \<and> (4::int) \<le> 1280
   \<and> frame_is Draw 20 20 (hand_at True False 20 20) None
   \<and> (\<exists>st' ev.
        painter_frame 1280 (hand_at False False 15 15) None
          \<lparr>xp = 10, yp = 10, current_color = (255, 0, 255),
           imgCanvas = [((10, 10), (10, 10), (255, 0, 255), 15)]\<rparr> = Inr (st', ev)
        \<and> xp st' = 0 \<and> yp st' = 0
        \<and> imgCanvas st' = [((10, 10), (10, 10), (255, 0, 255), 15)]
        \<and> painter_frame 1280 (hand_at True False 20 20) None st' =
            Inr (st'\<lparr>xp := 20, yp := 20,
                     imgCanvas := [((10, 10), (10, 10), (255, 0, 255), 15)] @
                       [((20, 20), (20, 20), current_color st',
                         if current_color st' = (0, 0, 0) then eraser_thickness
                         else brush_thickness)]\<rparr>, None))"
proof -
  have f: "frame_is Idle 15 15 (hand_at False False 15 15) None"
    and f2: "frame_is Draw 20 20 (hand_at True False 20 20) None"
    by (simp_all add: frame_is_hand_at)
  have d: "Idle \<noteq> Draw" by simp
  have w: "(4::int) \<le> 1280" by simp
  from non_draw_frame_lifts_pen [OF f d w,
        of "\<lparr>xp = 10, yp = 10, current_color = (255, 0, 255),
             imgCanvas = [((10, 10), (10, 10), (255, 0, 255), 15)]\<rparr>"]
  obtain st' ev where
    r: "painter_frame 1280 (hand_at False False 15 15) None
          \<lparr>xp = 10, yp = 10, current_color = (255, 0, 255),
           imgCanvas = [((10, 10), (10, 10), (255, 0, 255), 15)]\<rparr> = Inr (st', ev)"
    and z: "xp st' = 0" "yp st' = 0"
    and c: "imgCanvas st' = [((10, 10), (10, 10), (255, 0, 255), 15)]"
    and n: "\<forall>w2 lm2 h2 jx jy. frame_is Draw jx jy lm2 h2 \<longrightarrow>
                 painter_frame w2 lm2 h2 st' =
                   Inr (st'\<lparr>xp := jx, yp := jy,
                            imgCanvas := [((10, 10), (10, 10), (255, 0, 255), 15)] @
                              [((jx, jy), (jx, jy), current_color st',
                                if current_color st' = (0, 0, 0) then eraser_thickness
                                else brush_thickness)]\<rparr>, None)"
    by auto
  from n f2 have
    "painter_frame 1280 (hand_at True False 20 20) None st' =
            Inr (st'\<lparr>xp := 20, yp := 20,
                     imgCanvas := [((10, 10), (10, 10), (255, 0, 255), 15)] @
                       [((20, 20), (20, 20), current_color st',
                         if current_color st' = (0, 0, 0) then eraser_thickness
                         else brush_thickness)]\<rparr>, None)"
    by blast
  with f f2 d w r z c show ?thesis by blast
qed

text \<open>
  As the spec words it, a frame without a hand would lift the pen too, and the first point
  of the next Draw frame would draw nothing. On the code a frame with an empty \<open>lmList\<close>
  skips the whole block and keeps \<open>xp, yp\<close>, so the next Draw frame joins (10,10) to
  (20,20); and after an Idle frame the next Draw frame still issues a zero-length line call.
\<close>

theorem pen_lift_counterexample:
  "painter_frame 1280 [] None
      \<lparr>xp = 10, yp = 10, current_color = (255, 0, 255),
       imgCanvas = [((10, 10), (10, 10), (255, 0, 255), 15)]\<rparr> =
     Inr (\<lparr>xp = 10, yp = 10, current_color = (255, 0, 255),
           imgCanvas = [((10, 10), (10, 10), (255, 0, 255), 15)]\<rparr>, None)
   \<and> run_virtual_painter
        [(1280, hand_at True False 10 10, None), (1280, [], None),
         (1280, hand_at True False 20 20, None)] painter_init =
     Inr \<lparr>xp = 20, yp = 20, current_color = (255, 0, 255),
          imgCanvas = [((10, 10), (10, 10), (255, 0, 255), 15),
                       ((10, 10), (20, 20), (255, 0, 255), 15)]\<rparr>
   \<and> run_virtual_painter
        [(1280, hand_at True False 10 10, None), (1280, hand_at False False 15 15, None),
         (1280, hand_at True False 20 20, None)] painter_init =
     Inr \<lparr>xp = 20, yp = 20, current_color = (255, 0, 255),
          imgCanvas = [((10, 10), (10, 10), (255, 0, 255), 15),
                       ((20, 20), (20, 20), (255, 0, 255), 15)]\<rparr>"
  by (simp add: painter_frame_no_hand painter_frame_Draw painter_frame_Idle
        hand_at_length hand_at_cursor hand_at_mode
        painter_init_def colors_def brush_thickness_def)

text \<open>
  Claim C9, as the code has it. In a Navigate frame with the cursor in the header band
  (\<open>iy < header_height\<close>) and a non-zero button width, button
  \<open>ix // btn_width\<close> is selected when that index lies in \<open>[0, num_buttons)\<close>; an index
  outside this range is not clamped, nothing is selected. With the cursor below the header
  nothing is selected and no error occurs.
\<close>

theorem navigate_selection:
  assumes "frame_is Navigate ix iy lmList handType"
  shows "(iy < header_height \<and> w div int (length colors) \<noteq> 0
            \<and> 0 \<le> ix div (w div int (length colors))
            \<and> ix div (w div int (length colors)) < int (length colors) \<longrightarrow>
          painter_frame w lmList handType st =
            Inr (st\<lparr>xp := 0, yp := 0,
                    current_color := colors ! nat (ix div (w div int (length colors)))\<rparr>,
                 Some (ix div (w div int (length colors)))))
       \<and> (iy < header_height \<and> w div int (length colors) \<noteq> 0
            \<and> \<not> (0 \<le> ix div (w div int (length colors))
                  \<and> ix div (w div int (length colors)) < int (length colors)) \<longrightarrow>
          painter_frame w lmList handType st = Inr (st\<lparr>xp := 0, yp := 0\<rparr>, None))
       \<and> (header_height \<le> iy \<longrightarrow>
          painter_frame w lmList handType st = Inr (st\<lparr>xp := 0, yp := 0\<rparr>, None))"
  by (simp add: frame_is_Navigate [OF assms] colors_def)

theorem navigate_selection_witness:
  "frame_is Navigate 700 50 (hand_at True True 700 50) None
   \<and> frame_is Navigate 1364 50 (hand_at True True 1364 50) None
   \<and> frame_is Navigate 700 200 (hand_at True True 700 200) None
   \<and> painter_frame 1280 (hand_at True True 700 50) None painter_init =
       Inr (painter_init\<lparr>xp := 0, yp := 0, current_color := (0, 255, 0)\<rparr>, Some 2)
   \<and> painter_frame 1366 (hand_at True True 1364 50) None painter_init =
       Inr (painter_init\<lparr>xp := 0, yp := 0\<rparr>, None)
   \<and> painter_frame 1280 (hand_at True True 700 200) None painter_init =
       Inr (painter_init\<lparr>xp := 0, yp := 0\<rparr>, None)"
proof -
  have f1: "frame_is Navigate 700 50 (hand_at True True 700 50) None"
    and f2: "frame_is Navigate 1364 50 (hand_at True True 1364 50) None"
    and f3: "frame_is Navigate 700 200 (hand_at True True 700 200) None"
    by (simp_all add: frame_is_hand_at)
  show ?thesis
    using f1 f2 f3
      navigate_selection [OF f1, of 1280 painter_init]
      navigate_selection [OF f2, of 1366 painter_init]
      navigate_selection [OF f3, of 1280 painter_init]
    by (simp add: colors_def header_height_def)
qed

text \<open>
  As the spec words it, an index beyond the last button would be clamped to it. On a frame
  1366 pixels wide the buttons are 341 wide; at x = 1364, on the right edge of the last
  button, the index is 4 and the code selects nothing. The same holds left of the frame,
  where the index is negative.
\<close>

theorem header_index_counterexample:
  "frame_is Navigate 1364 50 (hand_at True True 1364 50) None
   \<and> (50::int) < header_height
   \<and> (1364::int) div (1366 div int (length colors)) = 4
   \<and> painter_frame 1366 (hand_at True True 1364 50) None painter_init = Inr (painter_init, None)
   \<and> frame_is Navigate (- 5) 50 (hand_at True True (- 5) 50) None
   \<and> (- 5 :: int) div (1280 div int (length colors)) = - 1
   \<and> painter_frame 1280 (hand_at True True (- 5) 50) None painter_init = Inr (painter_init, None)"
  by (simp add: frame_is_hand_at painter_frame_Navigate hand_at_length hand_at_cursor hand_at_mode
        header_height_def colors_def painter_init_def)

section \<open>The pose trainer\<close>

lemma atan2_bounds: "- pi \<le> atan2 y x \<and> atan2 y x \<le> pi"
proof -
  have l: "- (pi / 2) < arctan (y / x)" by (rule arctan_lbound)
  have u: "arctan (y / x) < pi / 2" by (rule arctan_ubound)
  have p: "0 < pi" by (rule pi_gt_zero)
  consider "x > 0" | "x < 0" "y \<ge> 0" | "x < 0" "y < 0" | "x = 0"
    by linarith
  then show ?thesis
  proof cases
    case 1
    then have "atan2 y x = arctan (y / x)" by (simp add: atan2_def)
    with l u p show ?thesis by linarith
  next
    case 2
    then have e: "atan2 y x = arctan (y / x) + pi" by (simp add: atan2_def)
    from 2 have "y / x \<le> 0" by (simp add: divide_nonneg_neg)
    then have "arctan (y / x) \<le> 0" by simp
    with e l p show ?thesis by linarith
  next
    case 3
    then have e: "atan2 y x = arctan (y / x) - pi" by (simp add: atan2_def)
    from 3 have "0 < y / x" by (simp add: divide_neg_neg)
    then have "0 < arctan (y / x)" by simp
    with e u p show ?thesis by linarith
  next
    case 4
    then have "atan2 y x = pi / 2 \<or> atan2 y x = - (pi / 2) \<or> atan2 y x = 0"
      by (simp add: atan2_def)
    with p show ?thesis by linarith
  qed
qed

lemma degrees_diff_bounds:
  assumes "- pi \<le> a" "a \<le> pi" "- pi \<le> b" "b \<le> pi"
  shows "- 360 \<le> degrees (a - b) \<and> degrees (a - b) \<le> 360"
proof -
  have p: "0 < pi" by (rule pi_gt_zero)
  from assms have "- (2 * pi) \<le> a - b" and "a - b \<le> 2 * pi" by simp_all
  then have "- (2 * pi) * 180 \<le> (a - b) * 180" and "(a - b) * 180 \<le> 2 * pi * 180"
    by simp_all
  with p show ?thesis
    by (simp add: degrees_def pos_le_divide_eq pos_divide_le_eq)
qed

lemma raw_angle_bounds: "- 360 \<le> raw_angle p1 p2 p3 \<and> raw_angle p1 p2 p3 \<le> 360"
proof -
  obtain x1 y1 x2 y2 x3 y3 where e: "p1 = (x1, y1)" "p2 = (x2, y2)" "p3 = (x3, y3)"
    by (cases p1, cases p2, cases p3) auto
  show ?thesis
    unfolding raw_angle_def e prod.case
    using atan2_bounds [of "real_of_int (y3 - y2)" "real_of_int (x3 - x2)"]
          atan2_bounds [of "real_of_int (y1 - y2)" "real_of_int (x1 - x2)"]
    by (intro degrees_diff_bounds) simp_all
qed

lemma normalize_angle_range:
  "- 360 \<le> a \<Longrightarrow> a \<le> 360 \<Longrightarrow> 0 \<le> normalize_angle a \<and> normalize_angle a \<le> 180"
  by (simp add: normalize_angle_def Let_def)

text \<open>
  Claim C8. Every raw angle in the range of a difference of two \<open>atan2\<close> values in
  degrees, from -360 to 360, is normalised into [0, 180]; the raw angle that \<open>findAngle\<close>
  computes from three landmarks lies in that range, so its normalised angle is in
  [0, 180]. A raw angle of -190 normalises to 170, one of 200 to 160.
\<close>

theorem normalize_angle_in_range:
  "(- 360 \<le> a \<and> a \<le> 360 \<longrightarrow> 0 \<le> normalize_angle a \<and> normalize_angle a \<le> 180)
   \<and> 0 \<le> normalize_angle (raw_angle p1 p2 p3)
   \<and> normalize_angle (raw_angle p1 p2 p3) \<le> 180
   \<and> normalize_angle (- 190) = 170
   \<and> normalize_angle 200 = 160"
proof -
  have c: "normalize_angle (- 190) = 170 \<and> normalize_angle 200 = 160"
    by (simp add: normalize_angle_def Let_def)
  show ?thesis
    using raw_angle_bounds [of p1 p2 p3] normalize_angle_range [of a]
          normalize_angle_range [of "raw_angle p1 p2 p3"] c
    by blast
qed

theorem normalize_angle_in_range_witness:
  "- 360 \<le> (- 190 :: real) \<and> (- 190 :: real) \<le> 360
   \<and> 0 \<le> normalize_angle (- 190) \<and> normalize_angle (- 190) \<le> 180"
  using normalize_angle_in_range [of "- 190"] by simp

lemma count_step_count:
  "curl_count (fst (count_step angle st)) =
     curl_count st + (if angle < 30 \<and> dir st = 0 then 1 / 2 else 0)"
  by (simp add: count_step_def Let_def)

lemma count_step_dir: "160 < angle \<Longrightarrow> dir (fst (count_step angle st)) = 0"
  by (simp add: count_step_def Let_def)

lemma count_step_up:
  "angle < 30 \<Longrightarrow> dir st = 0 \<Longrightarrow> dir (fst (count_step angle st)) = 1"
  by (simp add: count_step_def Let_def)

lemma count_trace_sorted: "sorted (map curl_count (st # count_trace angles st))"
proof (induction angles arbitrary: st)
  case Nil
  show ?case by simp
next
  case (Cons a angles)
  have le: "curl_count st \<le> curl_count (fst (count_step a st))"
    by (simp add: count_step_count)
  from Cons.IH [of "fst (count_step a st)"]
  have s: "sorted (map curl_count (fst (count_step a st) # count_trace angles (fst (count_step a st))))" .
  then have "\<forall>c \<in> set (map curl_count (count_trace angles (fst (count_step a st)))).
               curl_count (fst (count_step a st)) \<le> c"
    by simp
  with le have "\<forall>c \<in> set (map curl_count (fst (count_step a st) # count_trace angles (fst (count_step a st)))).
               curl_count st \<le> c"
    by auto
  with s show ?case by (simp add: Let_def)
qed


text \<open>
  Claim C2. Along every sequence of angle samples the count never decreases; one sample
  adds exactly 0.5 when the angle is below 30 while the direction flag is Down (0), setting
  the flag to Up (1), and adds nothing otherwise; an angle above 160 sets the flag to Down
  whatever it was. The samples 170, 90, 20, 90, 170 from count 0 and direction Down give
  the counts 0, 0, 0.5, 0.5, 0.5: one increment, at the 20 degree sample.
\<close>

theorem rep_counter:
  "sorted (map curl_count (st # count_trace angles st))
   \<and> curl_count (fst (count_step angle st)) =
       curl_count st + (if angle < 30 \<and> dir st = 0 then 0.5 else 0)
   \<and> (angle < 30 \<and> dir st = 0 \<longrightarrow> dir (fst (count_step angle st)) = 1)
   \<and> (160 < angle \<longrightarrow> dir (fst (count_step angle st)) = 0)
   \<and> map curl_count (count_trace [170, 90, 20, 90, 170] \<lparr>dir = 0, curl_count = 0\<rparr>) =
       [0, 0, 0.5, 0.5, 0.5]"
proof -
  have t: "map curl_count (count_trace [170, 90, 20, 90, 170] \<lparr>dir = 0, curl_count = 0\<rparr>) =
       [0, 0, 0.5, 0.5, 0.5]"
    by (simp add: count_step_def Let_def)
  show ?thesis
    using count_trace_sorted [of st angles] count_step_count [of angle st]
          count_step_dir [of angle st] count_step_up [of angle st] t
    by simp
qed

theorem rep_counter_witness:
  "(160 :: real) < 170
   \<and> (20 :: real) < 30 \<and> dir \<lparr>dir = 0, curl_count = 0\<rparr> = 0
   \<and> dir (fst (count_step 170 \<lparr>dir = 1, curl_count = 0.5\<rparr>)) = 0
   \<and> dir (fst (count_step 20 \<lparr>dir = 0, curl_count = 0\<rparr>)) = 1
   \<and> curl_count (fst (count_step 20 \<lparr>dir = 0, curl_count = 0\<rparr>)) = 0.5
   \<and> curl_count (fst (count_step 20 \<lparr>dir = 1, curl_count = 0.5\<rparr>)) = 0.5"
  using rep_counter [of "\<lparr>dir = 1, curl_count = 0.5\<rparr>" "[]" 170]
        rep_counter [of "\<lparr>dir = 0, curl_count = 0\<rparr>" "[]" 20]
        rep_counter [of "\<lparr>dir = 1, curl_count = 0.5\<rparr>" "[]" 20]
  by simp

section \<open>Absent landmarks\<close>















end
